theory Spec2Isabelle
  imports Complex_Main "HOL-Library.AList" "HOL-Library.Char_ord" "HOL-Library.List_Lexorder"
begin

section \<open>Exceptions\<close>

text \<open>
  \<open>energybot.py\<close> raises one exception class of its own, \<open>RateParseError\<close>, with five
  different messages. The kind below stands for the message; \<open>message\<close> gives the text
  of the source. The other constructors of \<open>exn\<close> are the library exceptions that the
  modelled functions can let through.
\<close>

datatype rate_parse_kind = NegativeRate | BadFormat | TooFewDigits | InvalidDecimal | OutOfRange

fun message :: "rate_parse_kind \<Rightarrow> string" where
  "message NegativeRate = ''Rate cannot be negative.''"
| "message BadFormat =
     ''Formatting should be 0.xxxxx (must start with 0. and use digits).''"
| "message TooFewDigits =
     ''Formatting should be 0.xxxxx (needs at least 5 digits after the decimal).''"
| "message InvalidDecimal = ''That rate isn't a valid decimal number.''"
| "message OutOfRange =
     ''Rate must be less than 1.00000 (prices should start with 0.xxxxx).''"

datatype discord_exc = Forbidden | NotFound | HTTPException

datatype exn =
    RateParseError rate_parse_kind
  | InvalidOperation
  | TypeError
  | AttributeError
  | RuntimeError
  | ValueError
  | PlaywrightError
  | DiscordError discord_exc

text \<open>Sequencing of computations that may raise: the first exception wins.\<close>

fun bind :: "exn + 'a \<Rightarrow> ('a \<Rightarrow> exn + 'b) \<Rightarrow> exn + 'b" where
  "bind (Inl e) f = Inl e"
| "bind (Inr x) f = f x"

section \<open>Strings\<close>

text \<open>
  A Python \<open>str\<close> is modelled by a \<open>string\<close> whose characters are the code points
  0 to 255. In that range the decimal digits (\<open>\d\<close>, and the digits \<open>Decimal\<close>
  accepts) are \<open>0\<close> to \<open>9\<close>, and the white space that \<open>str.strip\<close> removes is
  the set below.
\<close>

definition is_digit :: "char \<Rightarrow> bool" where
  "is_digit c = (48 \<le> (of_char c :: nat) \<and> (of_char c :: nat) \<le> 57)"

definition is_space :: "char \<Rightarrow> bool" where
  "is_space c =
     (let n = (of_char c :: nat)
      in (9 \<le> n \<and> n \<le> 13) \<or> (28 \<le> n \<and> n \<le> 32) \<or> n = 133 \<or> n = 160)"

definition strip :: "string \<Rightarrow> string" where
  "strip s = rev (dropWhile is_space (rev (dropWhile is_space s)))"

definition startswith :: "string \<Rightarrow> string \<Rightarrow> bool" where
  "startswith p s = (take (length p) s = p)"

definition lower :: "char \<Rightarrow> char" where
  "lower c =
     (case map_of (zip ''ABCDEFGHIJKLMNOPQRSTUVWXYZ'' ''abcdefghijklmnopqrstuvwxyz'') c of
        None \<Rightarrow> c
      | Some l \<Rightarrow> l)"

definition digit_val :: "char \<Rightarrow> nat" where
  "digit_val c = of_char c - 48"

definition nat_of_digits :: "string \<Rightarrow> nat" where
  "nat_of_digits ds = foldl (\<lambda>a c. 10 * a + digit_val c) 0 ds"

text \<open>The number of decimal digits of a number; zero has one.\<close>

fun ndigits :: "nat \<Rightarrow> nat" where
  "ndigits n = (if n < 10 then 1 else Suc (ndigits (n div 10)))"

section \<open>Decimal\<close>

text \<open>
  A \<open>decimal.Decimal\<close> is a sign, a coefficient and an exponent, or an infinity, or a
  NaN (the flag says signalling). The sign is \<open>True\<close> for negative, so \<open>-0\<close> is a value
  of its own, as in Python.
\<close>

datatype decimal = Fin bool nat int | Infinity bool | NaN bool

fun is_nan :: "decimal \<Rightarrow> bool" where
  "is_nan (NaN _) = True"
| "is_nan _ = False"

definition pow10 :: "int \<Rightarrow> rat" where
  "pow10 e = (if 0 \<le> e then 10 ^ nat e else 1 / 10 ^ nat (- e))"

fun dec_val :: "decimal \<Rightarrow> rat" where
  "dec_val (Fin s c e) = (if s then - 1 else 1) * of_nat c * pow10 e"
| "dec_val _ = 0"

subsection \<open>The constructor from a string\<close>

text \<open>
  \<open>Decimal(str)\<close> strips white space, drops underscores and then wants: an optional
  sign, then either digits with an optional point (at least one digit in all) and an
  optional exponent \<open>E[+-]digits\<close>, or \<open>Inf\<close>/\<open>Infinity\<close>, or \<open>NaN\<close>/\<open>sNaN\<close> with
  optional diagnostic digits; letters in any case. Anything else raises
  \<open>InvalidOperation\<close>.

  The conversion is exact within the widest context of the library, and raises
  \<open>InvalidOperation\<close> outside it: when the adjusted exponent (the exponent of the
  first digit) is above \<open>MAX_EMAX\<close>, or the exponent is below \<open>MIN_ETINY\<close>. A text
  without an exponent part leaves this range only with more than \<open>10 ^ 18\<close> digits,
  which no string of a running program has; the limits are checked where the text
  has an exponent part.
\<close>

definition MAX_EMAX :: int where
  "MAX_EMAX = 999999999999999999"

definition MIN_ETINY :: int where
  "MIN_ETINY = - 1999999999999999997"

definition in_exponent_range :: "nat \<Rightarrow> int \<Rightarrow> bool" where
  "in_exponent_range c e = (e + int (ndigits c) - 1 \<le> MAX_EMAX \<and> MIN_ETINY \<le> e)"

fun split_sign :: "string \<Rightarrow> bool \<times> string" where
  "split_sign [] = (False, [])"
| "split_sign (c # cs) =
     (if c = CHR ''-'' then (True, cs)
      else if c = CHR ''+'' then (False, cs)
      else (False, c # cs))"

definition parse_exponent :: "string \<Rightarrow> int option" where
  "parse_exponent t =
     (case split_sign t of (neg, ds) \<Rightarrow>
        if ds \<noteq> [] \<and> list_all is_digit ds
        then Some (if neg then - int (nat_of_digits ds) else int (nat_of_digits ds))
        else None)"

definition parse_fraction :: "string \<Rightarrow> string \<times> string" where
  "parse_fraction r =
     (case r of
        [] \<Rightarrow> ([], [])
      | c # t \<Rightarrow>
          if c = CHR ''.'' then (takeWhile is_digit t, dropWhile is_digit t) else ([], r))"

definition parse_number :: "bool \<Rightarrow> string \<Rightarrow> decimal option" where
  "parse_number sg t =
     (let ip = takeWhile is_digit t
      in case parse_fraction (dropWhile is_digit t) of (fp, r) \<Rightarrow>
           if ip = [] \<and> fp = [] then None
           else (case r of
                   [] \<Rightarrow> Some (Fin sg (nat_of_digits (ip @ fp)) (- int (length fp)))
                 | c # x \<Rightarrow>
                     if lower c = CHR ''e''
                     then (case parse_exponent x of
                             None \<Rightarrow> None
                           | Some n \<Rightarrow>
                               if in_exponent_range (nat_of_digits (ip @ fp)) (n - int (length fp))
                               then Some (Fin sg (nat_of_digits (ip @ fp)) (n - int (length fp)))
                               else None)
                     else None))"

definition parse_special :: "bool \<Rightarrow> string \<Rightarrow> decimal option" where
  "parse_special sg t =
     (let u = map lower t
      in if u = ''inf'' \<or> u = ''infinity'' then Some (Infinity sg)
         else if startswith ''nan'' u \<and> list_all is_digit (drop 3 u) then Some (NaN False)
         else if startswith ''snan'' u \<and> list_all is_digit (drop 4 u) then Some (NaN True)
         else None)"

definition Decimal_of_str :: "string \<Rightarrow> exn + decimal" where
  "Decimal_of_str s =
     (case split_sign (filter (\<lambda>c. c \<noteq> CHR ''_'') (strip s)) of (sg, t) \<Rightarrow>
        (case parse_special sg t of
           Some d \<Rightarrow> Inr d
         | None \<Rightarrow>
             (case parse_number sg t of
                Some d \<Rightarrow> Inr d
              | None \<Rightarrow> Inl InvalidOperation)))"

definition Decimal_of_int :: "int \<Rightarrow> decimal" where
  "Decimal_of_int i = Fin (i < 0) (nat \<bar>i\<bar>) 0"

subsection \<open>Comparison\<close>

text \<open>
  The ordering comparisons of \<open>Decimal\<close> compare numerically (so \<open>-0\<close> equals \<open>0\<close>
  and the exponent alone makes no difference), and raise \<open>InvalidOperation\<close> when
  an operand is a NaN.
\<close>

fun num_less :: "decimal \<Rightarrow> decimal \<Rightarrow> bool" where
  "num_less (Fin s c e) (Fin s' c' e') = (dec_val (Fin s c e) < dec_val (Fin s' c' e'))"
| "num_less (Infinity s) (Infinity s') = (s \<and> \<not> s')"
| "num_less (Infinity s) (Fin _ _ _) = s"
| "num_less (Fin _ _ _) (Infinity s') = (\<not> s')"
| "num_less _ _ = False"

definition dec_lt :: "decimal \<Rightarrow> decimal \<Rightarrow> exn + bool" where
  "dec_lt a b = (if is_nan a \<or> is_nan b then Inl InvalidOperation else Inr (num_less a b))"

definition dec_le :: "decimal \<Rightarrow> decimal \<Rightarrow> exn + bool" where
  "dec_le a b = (if is_nan a \<or> is_nan b then Inl InvalidOperation else Inr (\<not> num_less b a))"

definition dec_ge :: "decimal \<Rightarrow> decimal \<Rightarrow> exn + bool" where
  "dec_ge a b = dec_le b a"

subsection \<open>Quantize, rounding half up\<close>

text \<open>
  \<open>d.quantize(q, rounding=ROUND_HALF_UP)\<close> gives the value of \<open>d\<close> at the exponent of
  \<open>q\<close>; digits that are cut off round the coefficient away from zero from one half
  on. It raises \<open>InvalidOperation\<close> for an infinity, for a signalling NaN, and when
  the result would have more digits than the context's precision (28).
\<close>

definition prec :: nat where
  "prec = 28"

definition rescale_half_up :: "int \<Rightarrow> nat \<Rightarrow> int \<Rightarrow> nat" where
  "rescale_half_up q c e =
     (if q \<le> e then c * 10 ^ nat (e - q)
      else (let p = 10 ^ nat (q - e)
            in if p \<le> 2 * (c mod p) then c div p + 1 else c div p))"

fun quantize :: "int \<Rightarrow> decimal \<Rightarrow> exn + decimal" where
  "quantize q (Fin s c e) =
     (if c = 0 then Inr (Fin s 0 q)
      else if int prec < int (ndigits c) + e - q then Inl InvalidOperation
      else (let c' = rescale_half_up q c e
            in if prec < ndigits c' then Inl InvalidOperation else Inr (Fin s c' q)))"
| "quantize q (Infinity s) = Inl InvalidOperation"
| "quantize q (NaN sig) = (if sig then Inl InvalidOperation else Inr (NaN False))"

definition Q5 :: int where
  "Q5 = - 5"

section \<open>Rate parsing\<close>

text \<open>
  \<open>RATE_INPUT_RE.match(s)\<close> for the pattern \<open>^0\.(\d+)$\<close>: the result is group 1.
  In Python \<open>$\<close> also matches just before a newline that ends the string.
\<close>

definition RATE_INPUT_RE_match :: "string \<Rightarrow> string option" where
  "RATE_INPUT_RE_match s =
     (case s of
        c0 # c1 # r \<Rightarrow>
          if c0 = CHR ''0'' \<and> c1 = CHR ''.''
          then (let frc = takeWhile is_digit r; rest = dropWhile is_digit r
                in if frc \<noteq> [] \<and> (rest = [] \<or> rest = [CHR 0x0A]) then Some frc else None)
          else None
      | _ \<Rightarrow> None)"

definition parse_user_rate :: "string \<Rightarrow> exn + decimal" where
  "parse_user_rate raw =
     (let s = strip raw
      in if startswith ''-'' s then Inl (RateParseError NegativeRate)
         else (case RATE_INPUT_RE_match s of
                 None \<Rightarrow> Inl (RateParseError BadFormat)
               | Some frc \<Rightarrow>
                   if length frc < 5 then Inl (RateParseError TooFewDigits)
                   else (case Decimal_of_str s of
                           Inl InvalidOperation \<Rightarrow> Inl (RateParseError InvalidDecimal)
                         | Inl e \<Rightarrow> Inl e
                         | Inr d \<Rightarrow>
                             bind (dec_lt d (Decimal_of_int 0)) (\<lambda>neg.
                               if neg then Inl (RateParseError NegativeRate)
                               else bind (dec_ge d (Decimal_of_int 1)) (\<lambda>big.
                                 if big then Inl (RateParseError OutOfRange)
                                 else quantize Q5 d)))))"

section \<open>JSON values\<close>

text \<open>
  What \<open>json\<close> decodes: \<open>None\<close>, booleans, integers, floats, strings, lists and
  dictionaries (in their order). A float is carried as the text \<open>str\<close> gives for it
  (\<open>0.1229\<close>, \<open>1e-05\<close>, \<open>nan\<close>), which is all the program reads of it.
\<close>

datatype jval =
    JNull
  | JBool bool
  | JInt int
  | JFloat string
  | JStr string
  | JList "jval list"
  | JDict "(string \<times> jval) list"

text \<open>\<open>d.get(k)\<close> and \<open>d.get(k, default)\<close>; a present \<open>null\<close> is not the default.\<close>

definition get_default :: "(string \<times> jval) list \<Rightarrow> string \<Rightarrow> jval \<Rightarrow> jval" where
  "get_default d k dflt = (case map_of d k of None \<Rightarrow> dflt | Some v \<Rightarrow> v)"

definition get :: "(string \<times> jval) list \<Rightarrow> string \<Rightarrow> jval" where
  "get d k = get_default d k JNull"

fun truthy :: "jval \<Rightarrow> bool" where
  "truthy JNull = False"
| "truthy (JBool b) = b"
| "truthy (JInt i) = (i \<noteq> 0)"
| "truthy (JFloat t) = (t \<noteq> ''0.0'' \<and> t \<noteq> ''-0.0'')"
| "truthy (JStr s) = (s \<noteq> [])"
| "truthy (JList xs) = (xs \<noteq> [])"
| "truthy (JDict kvs) = (kvs \<noteq> [])"

text \<open>Python's \<open>a or b\<close>.\<close>

definition py_or :: "jval \<Rightarrow> jval \<Rightarrow> jval" where
  "py_or a b = (if truthy a then a else b)"

subsection \<open>\<open>str\<close> and \<open>repr\<close>\<close>

definition digit_char :: "nat \<Rightarrow> char" where
  "digit_char n = ''0123456789abcdef'' ! (n mod 16)"

fun digits_of_nat :: "nat \<Rightarrow> string" where
  "digits_of_nat n =
     (if n < 10 then [digit_char n]
      else digits_of_nat (n div 10) @ [digit_char (n mod 10)])"

definition str_of_int :: "int \<Rightarrow> string" where
  "str_of_int i = (if i < 0 then ''-'' @ digits_of_nat (nat (- i)) else digits_of_nat (nat i))"

definition printable :: "char \<Rightarrow> bool" where
  "printable c = (let n = (of_char c :: nat) in (32 \<le> n \<and> n < 127) \<or> (161 \<le> n \<and> n \<noteq> 173))"

definition repr_char :: "char \<Rightarrow> char \<Rightarrow> string" where
  "repr_char quote c =
     (if c = quote \<or> c = CHR 0x5C then [CHR 0x5C, c]
      else if c = CHR 0x09 then [CHR 0x5C, CHR ''t'']
      else if c = CHR 0x0A then [CHR 0x5C, CHR ''n'']
      else if c = CHR 0x0D then [CHR 0x5C, CHR ''r'']
      else if printable c then [c]
      else [CHR 0x5C, CHR ''x'', digit_char (of_char c div 16), digit_char (of_char c mod 16)])"

definition repr_str :: "string \<Rightarrow> string" where
  "repr_str s =
     (let quote = (if CHR 0x27 \<in> set s \<and> CHR 0x22 \<notin> set s then CHR 0x22 else CHR 0x27)
      in [quote] @ concat (map (repr_char quote) s) @ [quote])"

fun join :: "string \<Rightarrow> string list \<Rightarrow> string" where
  "join sep [] = []"
| "join sep [x] = x"
| "join sep (x # y # ys) = x @ sep @ join sep (y # ys)"

fun repr :: "jval \<Rightarrow> string" where
  "repr JNull = ''None''"
| "repr (JBool b) = (if b then ''True'' else ''False'')"
| "repr (JInt i) = str_of_int i"
| "repr (JFloat t) = t"
| "repr (JStr s) = repr_str s"
| "repr (JList xs) = ''['' @ join '', '' (map repr xs) @ '']''"
| "repr (JDict kvs) =
     ''{'' @ join '', '' (map (\<lambda>kv. repr_str (fst kv) @ '': '' @ repr (snd kv)) kvs) @ ''}''"

definition str :: "jval \<Rightarrow> string" where
  "str v = (case v of JStr s \<Rightarrow> s | _ \<Rightarrow> repr v)"

section \<open>Offer rates\<close>

definition parse_offer_rate :: "(string \<times> jval) list \<Rightarrow> exn + decimal option" where
  "parse_offer_rate obj =
     (let val = (if get obj ''rate'' = JNull then get obj ''blendedRate'' else get obj ''rate'')
      in if val = JNull then Inr None
         else (case Decimal_of_str (str val) of
                 Inl InvalidOperation \<Rightarrow> Inr None
               | Inl e \<Rightarrow> Inl e
               | Inr d \<Rightarrow>
                   bind (dec_lt d (Decimal_of_int 0)) (\<lambda>neg.
                     if neg then Inr None
                     else bind (dec_ge d (Decimal_of_int 1)) (\<lambda>big.
                       if big then Inr None
                       else bind (quantize Q5 d) (\<lambda>r. Inr (Some r))))))"

section \<open>Formatting with \<open>.5f\<close>\<close>

text \<open>
  \<open>f"{d:.5f}"\<close> brings the value to five places (the context's rounding, half even,
  when digits are cut off) and prints sign, integer digits, point and five digits.
  The diagnostic of a NaN is not kept in \<open>decimal\<close>; no NaN reaches this function in
  the program.
\<close>

definition rescale_half_even :: "int \<Rightarrow> nat \<Rightarrow> int \<Rightarrow> nat" where
  "rescale_half_even q c e =
     (if q \<le> e then c * 10 ^ nat (e - q)
      else (let p = 10 ^ nat (q - e); d = c div p; r = c mod p
            in if p < 2 * r \<or> (p = 2 * r \<and> odd d) then d + 1 else d))"

definition five_digits :: "nat \<Rightarrow> string" where
  "five_digits r = map (\<lambda>k. digit_char (r div 10 ^ k mod 10)) [4, 3, 2, 1, 0]"

fun format_5f :: "decimal \<Rightarrow> string" where
  "format_5f (Fin s c e) =
     (let c' = rescale_half_even (- 5) c e
      in (if s then ''-'' else []) @ digits_of_nat (c' div 100000) @ ''.'' @
         five_digits (c' mod 100000))"
| "format_5f (Infinity s) = (if s then ''-Infinity'' else ''Infinity'')"
| "format_5f (NaN sig) = (if sig then ''sNaN'' else ''NaN'')"

section \<open>Fetching and ranking offers\<close>

record offer =
  oid :: string
  supplier :: jval
  title :: jval
  offerType :: jval
  termOfOffer :: jval
  fees :: jval
  recLabel :: jval
  standardOffer :: bool
  rate_dec :: decimal
  rate_str :: string
  energizect_url :: "string option"
  enroll_url :: jval

text \<open>The dictionary that \<open>fetch_offers\<close> appends for a raw record with rate \<open>rdec\<close>.\<close>

definition make_offer :: "(string \<times> jval) list \<Rightarrow> decimal \<Rightarrow> offer" where
  "make_offer raw rdec =
     (let content_url = py_or (get raw ''contentUrl'') (JStr [])
      in \<lparr> oid = str (get_default raw ''id'' (JStr [])),
           supplier = py_or (py_or (get raw ''supplier'') (get raw ''title'')) (JStr ''Unknown Supplier''),
           title = py_or (py_or (get raw ''title'') (get raw ''supplier'')) (JStr ''Offer''),
           offerType = py_or (get raw ''offerType'') (JStr ''Unknown''),
           termOfOffer = py_or (get raw ''termOfOffer'') (JStr ''Unknown term''),
           fees = py_or (get raw ''fees'') (JList []),
           recLabel = get raw ''recLabel'',
           standardOffer = truthy (get_default raw ''standardOffer'' (JBool False)),
           rate_dec = rdec,
           rate_str = format_5f rdec,
           energizect_url =
             (case content_url of
                JStr u \<Rightarrow> if startswith ''/'' u then Some (''https://www.energizect.com'' @ u) else None
              | _ \<Rightarrow> None),
           enroll_url = (case get raw ''offerLink'' of JDict l \<Rightarrow> get l ''uri'' | _ \<Rightarrow> JNull) \<rparr>)"

text \<open>
  The loop over the raw records: a record that is not a dictionary has no \<open>get\<close>
  (\<open>AttributeError\<close>), a record without a rate is skipped, and an exception of
  \<open>parse_offer_rate\<close> leaves the loop.
\<close>

fun normalize :: "jval list \<Rightarrow> exn + offer list" where
  "normalize [] = Inr []"
| "normalize (JDict raw # os) =
     bind (parse_offer_rate raw) (\<lambda>r.
       case r of
         None \<Rightarrow> normalize os
       | Some rdec \<Rightarrow> bind (normalize os) (\<lambda>rest. Inr (make_offer raw rdec # rest)))"
| "normalize (_ # os) = Inl AttributeError"

text \<open>
  \<open>(a or []) + (b or [])\<close>, as the sequence the loop then walks: two lists are
  appended, two strings give their characters, anything else raises \<open>TypeError\<close>
  (at the \<open>+\<close>, or at the \<open>for\<close> for a number).
\<close>

fun py_add :: "jval \<Rightarrow> jval \<Rightarrow> exn + jval list" where
  "py_add (JList xs) (JList ys) = Inr (xs @ ys)"
| "py_add (JStr a) (JStr b) = Inr (map (\<lambda>c. JStr [c]) (a @ b))"
| "py_add _ _ = Inl TypeError"

text \<open>The list's own \<open>sort(key=...)\<close> is stable; so is \<open>sort_key\<close>.\<close>

definition rank :: "offer list \<Rightarrow> offer list" where
  "rank offers = sort_key (\<lambda>x. dec_val (rate_dec x)) offers"

definition offers_of_json :: "jval \<Rightarrow> exn + offer list" where
  "offers_of_json data =
     (case data of
        JDict d \<Rightarrow>
          bind (py_add (py_or (get d ''results'') (JList []))
                       (py_or (get d ''compareResults'') (JList [])))
            (\<lambda>offers_raw. bind (normalize offers_raw) (\<lambda>offers. Inr (rank offers)))
      | _ \<Rightarrow> Inl AttributeError)"

text \<open>
  What the browser gives \<open>fetch_offers\<close>: a step of the browser raises, or \<open>goto\<close>
  returns no response, or a response with a status and a body (\<open>None\<close> when the body
  is not JSON).
\<close>

datatype nav = BrowserRaises | NoResponse | Response nat "jval option"

definition response_ok :: "nat \<Rightarrow> bool" where
  "response_ok status = (status = 0 \<or> (200 \<le> status \<and> status \<le> 299))"

fun fetch_offers :: "nav \<Rightarrow> exn + offer list" where
  "fetch_offers BrowserRaises = Inl PlaywrightError"
| "fetch_offers NoResponse = Inl RuntimeError"
| "fetch_offers (Response status body) =
     (if status = 403 then Inl RuntimeError
      else if \<not> response_ok status then Inl RuntimeError
      else (case body of None \<Rightarrow> Inl ValueError | Some data \<Rightarrow> offers_of_json data))"

section \<open>Savings\<close>

text \<open>
  Subtraction and multiplication of \<open>Decimal\<close> under the default context: the exact
  result, rounded half even to 28 digits when it has more. The limits of the
  context on the exponent are not modelled.
\<close>

definition ctx_round :: "decimal \<Rightarrow> decimal" where
  "ctx_round d =
     (case d of
        Fin s c e \<Rightarrow>
          if ndigits c \<le> prec then d
          else (let q = e + int (ndigits c - prec); c' = rescale_half_even q c e
                in if prec < ndigits c' then Fin s (c' div 10) (q + 1) else Fin s c' q)
      | _ \<Rightarrow> d)"

fun is_snan :: "decimal \<Rightarrow> bool" where
  "is_snan (NaN sig) = sig"
| "is_snan _ = False"

definition signed :: "bool \<Rightarrow> nat \<Rightarrow> int" where
  "signed s c = (if s then - int c else int c)"

fun fin_sub :: "decimal \<Rightarrow> decimal \<Rightarrow> exn + decimal" where
  "fin_sub (Fin s c e) (Fin s' c' e') =
     (let x = min e e';
          r = signed s (c * 10 ^ nat (e - x)) - signed s' (c' * 10 ^ nat (e' - x))
      in Inr (ctx_round (if r = 0 then Fin (c = 0 \<and> c' = 0 \<and> s \<and> \<not> s') 0 x
                         else Fin (r < 0) (nat \<bar>r\<bar>) x)))"
| "fin_sub (Infinity s) (Infinity s') = (if s = s' then Inl InvalidOperation else Inr (Infinity s))"
| "fin_sub (Infinity s) _ = Inr (Infinity s)"
| "fin_sub _ (Infinity s') = Inr (Infinity (\<not> s'))"
| "fin_sub _ _ = Inr (NaN False)"

definition dec_sub :: "decimal \<Rightarrow> decimal \<Rightarrow> exn + decimal" where
  "dec_sub a b =
     (if is_snan a \<or> is_snan b then Inl InvalidOperation
      else if is_nan a \<or> is_nan b then Inr (NaN False)
      else fin_sub a b)"

fun fin_mul :: "decimal \<Rightarrow> decimal \<Rightarrow> exn + decimal" where
  "fin_mul (Fin s c e) (Fin s' c' e') = Inr (ctx_round (Fin (s \<noteq> s') (c * c') (e + e')))"
| "fin_mul (Infinity s) (Infinity s') = Inr (Infinity (s \<noteq> s'))"
| "fin_mul (Infinity s) (Fin s' c' e') =
     (if c' = 0 then Inl InvalidOperation else Inr (Infinity (s \<noteq> s')))"
| "fin_mul (Fin s c e) (Infinity s') =
     (if c = 0 then Inl InvalidOperation else Inr (Infinity (s \<noteq> s')))"
| "fin_mul _ _ = Inr (NaN False)"

definition dec_mul :: "decimal \<Rightarrow> decimal \<Rightarrow> exn + decimal" where
  "dec_mul a b =
     (if is_snan a \<or> is_snan b then Inl InvalidOperation
      else if is_nan a \<or> is_nan b then Inr (NaN False)
      else fin_mul a b)"

text \<open>
  The parameter \<open>monthly_kwh\<close> has the default 750: the argument is \<open>None\<close> when the
  caller leaves it out.
\<close>

definition monthly_kwh_of :: "int option \<Rightarrow> int" where
  "monthly_kwh_of arg = (case arg of None \<Rightarrow> 750 | Some k \<Rightarrow> k)"

definition money_savings_per_month :: "decimal \<Rightarrow> decimal \<Rightarrow> int option \<Rightarrow> exn + decimal" where
  "money_savings_per_month user_rate best_rate arg =
     (let monthly_kwh = monthly_kwh_of arg
      in bind (dec_sub user_rate best_rate) (\<lambda>diff.
           bind (dec_le diff (Decimal_of_int 0)) (\<lambda>nonpos.
             if nonpos then Inr (Fin False 0 (- 2))
             else bind (dec_mul diff (Decimal_of_int monthly_kwh)) (quantize (- 2)))))"

section \<open>The persisted store\<close>

text \<open>
  \<open>rates.json\<close> holds one dictionary per user id. The values the program writes are
  strings, integers and \<open>None\<close>. A user's dictionary is a map from its keys; the store
  is a list of users in the order of the file, which is the order of the daily loop.
  The key of a user is \<open>str(ctx.author.id)\<close>, modelled by the id itself; \<open>json.dump\<close>
  with \<open>sort_keys\<close> writes the users in the order of those strings. The file is
  modelled by the store it decodes to, \<open>None\<close> when the file does not exist.
\<close>

datatype sval = SNull | SInt int | SStr string

type_synonym info = "string \<rightharpoonup> sval"

type_synonym store = "(nat \<times> info) list"

type_synonym rates_file = "store option"

definition load_data :: "rates_file \<Rightarrow> store" where
  "load_data f = (case f of None \<Rightarrow> [] | Some data \<Rightarrow> data)"

definition save_data :: "store \<Rightarrow> rates_file" where
  "save_data data = Some (sort_key (\<lambda>kv. digits_of_nat (fst kv)) data)"

text \<open>\<open>info.get(k)\<close> and \<open>info.setdefault(k, v)\<close>.\<close>

definition sget :: "info \<Rightarrow> string \<Rightarrow> sval" where
  "sget i k = (case i k of None \<Rightarrow> SNull | Some v \<Rightarrow> v)"

definition setdefault :: "info \<Rightarrow> string \<Rightarrow> sval \<Rightarrow> info" where
  "setdefault i k v = (case i k of None \<Rightarrow> i(k \<mapsto> v) | Some _ \<Rightarrow> i)"

text \<open>\<open>Decimal(x)\<close> for a stored value.\<close>

fun Decimal_of_sval :: "sval \<Rightarrow> exn + decimal" where
  "Decimal_of_sval (SStr t) = Decimal_of_str t"
| "Decimal_of_sval (SInt i) = Inr (Decimal_of_int i)"
| "Decimal_of_sval SNull = Inl TypeError"

section \<open>The command \<open>setrate\<close>\<close>

record ctx =
  author_id :: nat
  channel_id :: int
  guild_id :: "int option"

datatype reply = ErrorReply rate_parse_kind | SavedReply string

definition setrate :: "ctx \<Rightarrow> string \<Rightarrow> rates_file \<Rightarrow> exn + rates_file \<times> reply" where
  "setrate c rate f =
     (case parse_user_rate rate of
        Inl (RateParseError k) \<Rightarrow> Inr (f, ErrorReply k)
      | Inl e \<Rightarrow> Inl e
      | Inr d \<Rightarrow>
          (let data = load_data f;
               uid = author_id c;
               i0 = (case map_of data uid of None \<Rightarrow> Map.empty | Some i \<Rightarrow> i);
               i1 = i0(''rate'' \<mapsto> SStr (format_5f d),
                       ''notify_channel_id'' \<mapsto> SInt (channel_id c),
                       ''notify_guild_id'' \<mapsto> (case guild_id c of None \<Rightarrow> SNull | Some g \<Rightarrow> SInt g));
               i2 = setdefault i1 ''last_notified_offer_id'' SNull;
               i3 = setdefault i2 ''last_notified_rate'' SNull
           in Inr (save_data (AList.update uid i3 data), SavedReply (format_5f d))))"

section \<open>Notifications\<close>

text \<open>
  The text of a notification is kept as what it is built from: the user's rate, the
  best offer, the savings and the other offers listed. \<open>format_offer_block\<close> joins
  the fees, which raises \<open>TypeError\<close> unless they are empty, or strings, or a
  dictionary (whose keys are joined).
\<close>

datatype notice = Notice decimal offer decimal "offer list"

fun is_JStr :: "jval \<Rightarrow> bool" where
  "is_JStr (JStr _) = True"
| "is_JStr _ = False"

fun joinable :: "jval \<Rightarrow> bool" where
  "joinable (JList xs) = list_all is_JStr xs"
| "joinable (JStr _) = True"
| "joinable (JDict _) = True"
| "joinable _ = False"

definition format_offer_block :: "offer \<Rightarrow> exn + offer" where
  "format_offer_block x = (if truthy (fees x) \<and> \<not> joinable (fees x) then Inl TypeError else Inr x)"

definition build_text :: "decimal \<Rightarrow> offer \<Rightarrow> offer list \<Rightarrow> exn + notice" where
  "build_text user_rate best better =
     bind (money_savings_per_month user_rate (rate_dec best) (Some 750)) (\<lambda>savings.
       bind (format_offer_block best) (\<lambda>block.
         Inr (Notice user_rate block savings (tl (take 3 better)))))"

text \<open>
  The chat platform, as far as \<open>send_notification\<close> sees it: what \<open>get_channel\<close>
  finds for an id, and for each call that can fail the exception it raises, if any.
\<close>

datatype channel = NoChannel | TextChannel | Thread | OtherChannel

record discord =
  get_channel :: "int \<Rightarrow> channel"
  channel_send :: "int \<Rightarrow> nat \<Rightarrow> exn option"
  fetch_user :: "nat \<Rightarrow> exn option"
  user_send :: "nat \<Rightarrow> exn option"

datatype sent = ChannelMessage int nat notice | DirectMessage nat notice

text \<open>\<open>discord.Forbidden\<close> and \<open>discord.NotFound\<close> are subclasses of \<open>discord.HTTPException\<close>.\<close>

fun is_HTTPException :: "exn \<Rightarrow> bool" where
  "is_HTTPException (DiscordError _) = True"
| "is_HTTPException _ = False"

definition direct_message :: "discord \<Rightarrow> nat \<Rightarrow> notice \<Rightarrow> exn + sent list" where
  "direct_message env user_id text =
     (case fetch_user env user_id of
        Some e \<Rightarrow> if e = DiscordError Forbidden then Inr [] else Inl e
      | None \<Rightarrow>
          (case user_send env user_id of
             Some e \<Rightarrow> if e = DiscordError Forbidden then Inr [] else Inl e
           | None \<Rightarrow> Inr [DirectMessage user_id text]))"

definition send_notification :: "discord \<Rightarrow> nat \<Rightarrow> info \<Rightarrow> notice \<Rightarrow> exn + sent list" where
  "send_notification env user_id i text =
     (case sget i ''notify_channel_id'' of
        SInt n \<Rightarrow>
          if n \<noteq> 0 \<and> (get_channel env n = TextChannel \<or> get_channel env n = Thread)
          then (case channel_send env n user_id of
                  None \<Rightarrow> Inr [ChannelMessage n user_id text]
                | Some e \<Rightarrow> if is_HTTPException e then direct_message env user_id text else Inl e)
          else direct_message env user_id text
      | _ \<Rightarrow> direct_message env user_id text)"

section \<open>The daily check\<close>

text \<open>\<open>[o for o in offers if o["rate_dec"] < user_rate]\<close>; the comparison can raise.\<close>

fun cheaper_than :: "offer list \<Rightarrow> decimal \<Rightarrow> exn + offer list" where
  "cheaper_than [] user_rate = Inr []"
| "cheaper_than (x # xs) user_rate =
     bind (dec_lt (rate_dec x) user_rate) (\<lambda>b.
       bind (cheaper_than xs user_rate) (\<lambda>rest. Inr (if b then x # rest else rest)))"

text \<open>The body of the loop for one user: the user's dictionary afterwards and what was sent.\<close>

definition daily_user :: "discord \<Rightarrow> offer list \<Rightarrow> nat \<Rightarrow> info \<Rightarrow> exn + info \<times> sent list" where
  "daily_user env offers uid i =
     (case i ''rate'' of
        None \<Rightarrow> Inr (i, [])
      | Some r \<Rightarrow>
          (case Decimal_of_sval r of
             Inl InvalidOperation \<Rightarrow> Inr (i, [])
           | Inl e \<Rightarrow> Inl e
           | Inr user_rate \<Rightarrow>
               bind (cheaper_than offers user_rate) (\<lambda>better.
                 case better of
                   [] \<Rightarrow> Inr (i, [])
                 | best # _ \<Rightarrow>
                     if sget i ''last_notified_offer_id'' = SStr (oid best) \<and>
                        sget i ''last_notified_rate'' = SStr (rate_str best)
                     then Inr (i, [])
                     else bind (build_text user_rate best better) (\<lambda>text.
                            bind (send_notification env uid i text) (\<lambda>out.
                              Inr (i(''last_notified_offer_id'' \<mapsto> SStr (oid best),
                                     ''last_notified_rate'' \<mapsto> SStr (rate_str best)), out))))))"

text \<open>
  The loop over the users. An exception leaves it: what was sent before stays sent,
  and the dictionaries in memory are lost.
\<close>

fun daily_loop :: "discord \<Rightarrow> offer list \<Rightarrow> store \<Rightarrow> sent list \<times> (exn + store)" where
  "daily_loop env offers [] = ([], Inr [])"
| "daily_loop env offers ((uid, i) # rest) =
     (case daily_user env offers uid i of
        Inl e \<Rightarrow> ([], Inl e)
      | Inr (i', out) \<Rightarrow>
          (case daily_loop env offers rest of
             (out', Inl e) \<Rightarrow> (out @ out', Inl e)
           | (out', Inr data') \<Rightarrow> (out @ out', Inr ((uid, i') # data'))))"

text \<open>
  One pass: the file afterwards, what was sent, and the exception that left the task,
  if any. \<open>except Exception\<close> around the fetch catches every exception of \<open>exn\<close>.
\<close>

definition daily_check :: "discord \<Rightarrow> nav \<Rightarrow> rates_file \<Rightarrow> rates_file \<times> sent list \<times> exn option" where
  "daily_check env page f =
     (let data = load_data f
      in if data = [] then (f, [], None)
         else (case fetch_offers page of
                 Inl e \<Rightarrow> (f, [], None)
               | Inr offers \<Rightarrow>
                   if offers = [] then (f, [], None)
                   else (case daily_loop env offers data of
                           (out, Inl e) \<Rightarrow> (f, out, Some e)
                         | (out, Inr data') \<Rightarrow> (save_data data', out, None))))"

section \<open>Example inputs\<close>

text \<open>What the file holds for a user under a key, if anything.\<close>

definition stored :: "rates_file \<Rightarrow> nat \<Rightarrow> string \<Rightarrow> sval option" where
  "stored f uid k = (case map_of (load_data f) uid of None \<Rightarrow> None | Some i \<Rightarrow> i k)"

text \<open>A platform without channels where every direct message goes through.\<close>

definition quiet_discord :: discord where
  "quiet_discord =
     \<lparr> get_channel = (\<lambda>n. NoChannel), channel_send = (\<lambda>n u. None),
       fetch_user = (\<lambda>u. None), user_send = (\<lambda>u. None) \<rparr>"

text \<open>
  A platform where channel 7 is a text channel that refuses user 11 (\<open>Forbidden\<close>) and
  the direct message to user 11 raises \<open>e\<close>; every other delivery goes through.
\<close>

definition rejecting_discord :: "exn \<Rightarrow> discord" where
  "rejecting_discord e =
     \<lparr> get_channel = (\<lambda>n. if n = 7 then TextChannel else NoChannel),
       channel_send = (\<lambda>n u. if u = 11 then Some (DiscordError Forbidden) else None),
       fetch_user = (\<lambda>u. None),
       user_send = (\<lambda>u. if u = 11 then Some e else None) \<rparr>"

text \<open>A feed with one offer, \<open>A\<close> at 0.10000, and a store with two users paying 0.15000.\<close>

definition example_page :: nav where
  "example_page =
     Response 200 (Some (JDict
       [(''results'', JList
           [JDict [(''id'', JStr ''A''), (''supplier'', JStr ''Acme''),
                   (''rate'', JStr ''0.10000'')]])]))"

definition example_store :: store where
  "example_store =
     [(11, [''rate'' \<mapsto> SStr ''0.15000'', ''notify_channel_id'' \<mapsto> SInt 7]),
      (12, [''rate'' \<mapsto> SStr ''0.15000''])]"

text \<open>A user who has been notified of offer \<open>A\<close> at 0.10000, and the user's next command.\<close>

definition notified_info :: info where
  "notified_info =
     [''rate'' \<mapsto> SStr ''0.15000'', ''notify_channel_id'' \<mapsto> SInt 7,
      ''notify_guild_id'' \<mapsto> SNull, ''last_notified_offer_id'' \<mapsto> SStr ''A'',
      ''last_notified_rate'' \<mapsto> SStr ''0.10000'']"

definition example_ctx :: ctx where
  "example_ctx = \<lparr> author_id = 11, channel_id = 7, guild_id = None \<rparr>"

text \<open>A feed where offer \<open>A\<close> has come down to 0.09000 and is listed after \<open>B\<close> at 0.12000.\<close>

definition repriced_page :: nav where
  "repriced_page =
     Response 200 (Some (JDict
       [(''results'', JList
           [JDict [(''id'', JStr ''B''), (''supplier'', JStr ''Best''),
                   (''rate'', JStr ''0.12000'')],
            JDict [(''id'', JStr ''A''), (''supplier'', JStr ''Acme''),
                   (''rate'', JStr ''0.09000'')]])]))"

definition repriced_offer :: offer where
  "repriced_offer = make_offer [(''id'', JStr ''A''), (''rate'', JStr ''0.09000'')] (Fin False 9000 (- 5))"

section \<open>Unfolding the definitions on concrete inputs\<close>

lemmas str_eval =
  strip_def is_space_def startswith_def is_digit_def lower_def digit_val_def nat_of_digits_def
  digit_char_def five_digits_def str_of_int_def

lemmas dec_eval =
  parse_exponent_def parse_fraction_def parse_number_def parse_special_def Decimal_of_str_def
  Decimal_of_int_def dec_lt_def dec_le_def dec_ge_def pow10_def rescale_half_up_def
  rescale_half_even_def prec_def Q5_def in_exponent_range_def MAX_EMAX_def MIN_ETINY_def

lemmas rate_eval = parse_user_rate_def RATE_INPUT_RE_match_def str_eval dec_eval Let_def

lemmas json_eval = get_def get_default_def py_or_def str_def parse_offer_rate_def

lemmas fetch_eval =
  response_ok_def offers_of_json_def rank_def make_offer_def json_eval str_eval dec_eval Let_def

lemmas store_eval = load_data_def save_data_def sget_def setdefault_def stored_def

lemmas notify_eval =
  daily_check_def daily_user_def build_text_def format_offer_block_def send_notification_def
  direct_message_def

lemmas savings_eval =
  money_savings_per_month_def monthly_kwh_of_def dec_sub_def dec_mul_def ctx_round_def signed_def
  dec_eval Let_def

section \<open>Strings and digits: basic facts\<close>

lemma is_digit_not_space: "is_digit c \<Longrightarrow> \<not> is_space c"
  by (auto simp: is_digit_def is_space_def Let_def)

lemma is_digit_neq [simp]:
  "is_digit c \<Longrightarrow> c \<noteq> CHR ''_''" "is_digit c \<Longrightarrow> c \<noteq> CHR ''.''"
  "is_digit c \<Longrightarrow> c \<noteq> CHR ''-''" "is_digit c \<Longrightarrow> c \<noteq> CHR ''+''"
  by (auto simp: is_digit_def)

lemma is_digit_consts [simp]:
  "is_digit CHR ''0''" "\<not> is_digit CHR ''.''" "\<not> is_digit CHR 0x0A"
  by (simp_all add: is_digit_def)

lemma is_space_consts [simp]: "\<not> is_space CHR ''0''" "is_space CHR 0x0A"
  by (simp_all add: is_space_def)

lemma takeWhile_all: "list_all P xs \<Longrightarrow> takeWhile P xs = xs"
  by (simp add: list_all_iff)

lemma dropWhile_all: "list_all P xs \<Longrightarrow> dropWhile P xs = []"
  by (simp add: list_all_iff)

lemma strip_id:
  assumes "s \<noteq> []" "\<not> is_space (hd s)" "\<not> is_space (last s)"
  shows "strip s = s"
proof -
  have "dropWhile is_space s = s"
    using assms by (simp add: dropWhile_eq_self_iff)
  moreover have "dropWhile is_space (rev s) = rev s"
    using assms by (simp add: dropWhile_eq_self_iff hd_rev)
  ultimately show ?thesis by (simp add: strip_def)
qed

text \<open>A stripped string does not end in white space.\<close>

lemma strip_last:
  assumes "strip s = xs @ [c]"
  shows "\<not> is_space c"
proof -
  have "rev (strip s) = dropWhile is_space (rev (dropWhile is_space s))"
    by (simp add: strip_def)
  with assms have "dropWhile is_space (rev (dropWhile is_space s)) = c # rev xs"
    by simp
  then show ?thesis
    by (metis hd_dropWhile list.sel(1) list.distinct(1))
qed

lemma nat_of_digits_snoc: "nat_of_digits (ds @ [c]) = 10 * nat_of_digits ds + digit_val c"
  by (simp add: nat_of_digits_def)

lemma digit_val_le: "is_digit c \<Longrightarrow> digit_val c \<le> 9"
  unfolding digit_val_def is_digit_def by linarith

text \<open>A string of \<open>n\<close> digits reads as a number below \<open>10 ^ n\<close>.\<close>

lemma nat_of_digits_bound: "list_all is_digit ds \<Longrightarrow> nat_of_digits ds < 10 ^ length ds"
proof (induction ds rule: rev_induct)
  case Nil
  then show ?case by (simp add: nat_of_digits_def)
next
  case (snoc c ds)
  then have "digit_val c \<le> 9" by (simp add: digit_val_le)
  moreover from snoc have "nat_of_digits ds < 10 ^ length ds" by simp
  ultimately show ?case by (simp add: nat_of_digits_snoc)
qed

lemma nat_of_digits_zero_Cons: "nat_of_digits (CHR ''0'' # ds) = nat_of_digits ds"
  by (simp add: nat_of_digits_def digit_val_def)

section \<open>Decimal values: basic facts\<close>

lemma pow10_neg: "pow10 (- int n) = 1 / 10 ^ n"
proof (cases n)
  case 0
  then show ?thesis by (simp add: pow10_def)
next
  case (Suc m)
  then have "\<not> 0 \<le> - int n" "nat (- (- int n)) = n" by simp_all
  then show ?thesis by (simp only: pow10_def if_False)
qed

lemma pow10_pos: "0 < pow10 e"
  by (simp add: pow10_def)

lemma dec_val_rate_bounds:
  assumes "c < 10 ^ n"
  shows "0 \<le> dec_val (Fin False c (- int n)) \<and> dec_val (Fin False c (- int n)) < 1"
proof -
  have "(of_nat c :: rat) < 10 ^ n"
    using assms by (metis of_nat_less_iff of_nat_power of_nat_numeral)
  then show ?thesis
    by (simp add: pow10_neg)
qed

lemma num_less_zero: "\<not> num_less (Fin False c e) (Decimal_of_int 0)"
proof -
  have "0 \<le> of_nat c * pow10 e"
    using pow10_pos [of e] by (simp add: less_imp_le)
  then show ?thesis
    by (simp add: Decimal_of_int_def not_less)
qed

lemma dec_lt_zero_Fin: "dec_lt (Fin False c e) (Decimal_of_int 0) = Inr False"
  using num_less_zero [of c e] by (simp add: dec_lt_def Decimal_of_int_def)

lemma dec_ge_one_rate:
  assumes "c < 10 ^ n"
  shows "dec_ge (Fin False c (- int n)) (Decimal_of_int 1) = Inr False"
proof -
  from dec_val_rate_bounds [OF assms] have "dec_val (Fin False c (- int n)) < 1" by simp
  then show ?thesis
    by (simp add: dec_ge_def dec_le_def Decimal_of_int_def pow10_def)
qed

section \<open>The user's rate\<close>

subsection \<open>What the pattern lets through\<close>

lemma RATE_INPUT_RE_match_SomeD:
  assumes "RATE_INPUT_RE_match s = Some frc"
  shows "frc \<noteq> [] \<and> list_all is_digit frc \<and>
         (s = ''0.'' @ frc \<or> s = ''0.'' @ frc @ [CHR 0x0A])"
proof -
  from assms obtain r where s: "s = CHR ''0'' # CHR ''.'' # r"
    and frc: "frc = takeWhile is_digit r" and ne: "frc \<noteq> []"
    and rest: "dropWhile is_digit r = [] \<or> dropWhile is_digit r = [CHR 0x0A]"
    by (auto simp: RATE_INPUT_RE_match_def Let_def split: list.splits if_splits)
  have all: "list_all is_digit frc" unfolding frc
    by (simp add: list_all_iff) (meson set_takeWhileD)
  have r: "r = frc @ dropWhile is_digit r" unfolding frc by simp
  from rest have "r = frc \<or> r = frc @ [CHR 0x0A]"
  proof
    assume "dropWhile is_digit r = []" with r show ?thesis by simp
  next
    assume "dropWhile is_digit r = [CHR 0x0A]" with r show ?thesis by simp
  qed
  with s ne all show ?thesis by auto
qed

lemma strip_rate:
  assumes "frc \<noteq> []" "list_all is_digit frc"
  shows "strip (''0.'' @ frc) = ''0.'' @ frc"
proof (rule strip_id)
  from assms have "is_digit (last (''0.'' @ frc))" by (simp add: list_all_iff)
  then show "\<not> is_space (last (''0.'' @ frc))" by (rule is_digit_not_space)
qed simp_all

lemma strip_newline:
  assumes "frc \<noteq> []" "list_all is_digit frc"
  shows "strip (''0.'' @ frc @ [CHR 0x0A]) = ''0.'' @ frc"
proof -
  let ?t = "''0.'' @ frc"
  from assms have "\<not> is_space (last ?t)"
    by (simp add: list_all_iff is_digit_not_space)
  then have c: "dropWhile is_space (rev ?t) = rev ?t"
    by (simp only: dropWhile_eq_self_iff hd_rev) simp
  have a: "dropWhile is_space (?t @ [CHR 0x0A]) = ?t @ [CHR 0x0A]"
    by simp
  have "strip (?t @ [CHR 0x0A]) = rev (dropWhile is_space (CHR 0x0A # rev ?t))"
    unfolding strip_def a by simp
  also have "\<dots> = rev (dropWhile is_space (rev ?t))"
    by simp
  also have "\<dots> = ?t"
    unfolding c by simp
  finally show ?thesis by simp
qed

subsection \<open>\<open>Decimal\<close> of a matching string\<close>

lemma Decimal_of_str_rate:
  assumes "frc \<noteq> []" "list_all is_digit frc"
  shows "Decimal_of_str (''0.'' @ frc) = Inr (Fin False (nat_of_digits frc) (- int (length frc)))"
proof -
  let ?s = "''0.'' @ frc"
  have "strip ?s = ?s"
    using assms by (rule strip_rate)
  moreover have "filter (\<lambda>c. c \<noteq> CHR ''_'') ?s = ?s"
    using assms by (auto simp: list_all_iff filter_id_conv)
  moreover have "parse_special False ?s = None"
    by (simp add: parse_special_def startswith_def lower_def Let_def)
  moreover have "parse_number False ?s = Some (Fin False (nat_of_digits frc) (- int (length frc)))"
    using assms by (simp add: parse_number_def parse_fraction_def takeWhile_all dropWhile_all
        nat_of_digits_zero_Cons Let_def)
  ultimately show ?thesis by (simp add: Decimal_of_str_def)
qed

lemma Decimal_of_str_cong: "strip s = strip t \<Longrightarrow> Decimal_of_str s = Decimal_of_str t"
  by (simp add: Decimal_of_str_def)

lemma Decimal_of_str_matched:
  assumes "RATE_INPUT_RE_match s = Some frc"
  shows "Decimal_of_str s = Inr (Fin False (nat_of_digits frc) (- int (length frc)))"
proof -
  from RATE_INPUT_RE_match_SomeD [OF assms]
  have ne: "frc \<noteq> []" and dg: "list_all is_digit frc"
    and s: "s = ''0.'' @ frc \<or> s = ''0.'' @ frc @ [CHR 0x0A]"
    by simp_all
  have "strip s = strip (''0.'' @ frc)"
    using s strip_newline [OF ne dg] strip_rate [OF ne dg] by auto
  then have "Decimal_of_str s = Decimal_of_str (''0.'' @ frc)"
    by (rule Decimal_of_str_cong)
  with Decimal_of_str_rate [OF ne dg] show ?thesis by simp
qed

lemma matched_in_range:
  assumes "RATE_INPUT_RE_match s = Some frc"
  shows "\<exists>d. Decimal_of_str s = Inr d \<and> 0 \<le> dec_val d \<and> dec_val d < 1 \<and>
             dec_lt d (Decimal_of_int 0) = Inr False \<and>
             dec_ge d (Decimal_of_int 1) = Inr False"
proof -
  from RATE_INPUT_RE_match_SomeD [OF assms] have dg: "list_all is_digit frc" by simp
  let ?d = "Fin False (nat_of_digits frc) (- int (length frc))"
  have b: "nat_of_digits frc < 10 ^ length frc" using dg by (rule nat_of_digits_bound)
  have "Decimal_of_str s = Inr ?d" using assms by (rule Decimal_of_str_matched)
  moreover have "0 \<le> dec_val ?d \<and> dec_val ?d < 1" using b by (rule dec_val_rate_bounds)
  moreover have "dec_lt ?d (Decimal_of_int 0) = Inr False" by (rule dec_lt_zero_Fin)
  moreover have "dec_ge ?d (Decimal_of_int 1) = Inr False" using b by (rule dec_ge_one_rate)
  ultimately show ?thesis by blast
qed

lemma parse_user_rate_not_OutOfRange:
  "parse_user_rate raw \<noteq> Inl (RateParseError OutOfRange)"
proof (cases "RATE_INPUT_RE_match (strip raw)")
  case None
  then show ?thesis by (simp add: parse_user_rate_def Let_def)
next
  case (Some frc)
  from matched_in_range [OF Some] obtain d where
    "Decimal_of_str (strip raw) = Inr d" "dec_lt d (Decimal_of_int 0) = Inr False"
    "dec_ge d (Decimal_of_int 1) = Inr False" by blast
  moreover have "quantize Q5 d \<noteq> Inl (RateParseError OutOfRange)"
    by (cases d) (auto simp: Let_def)
  ultimately show ?thesis using Some by (simp add: parse_user_rate_def Let_def)
qed

subsection \<open>Rounding can reach one\<close>

text \<open>
  C5. The claim: a valid input (\<open>0.\<close>, at least five digits, value below 1) gives a
  rate \<open>v\<close> with \<open>0 \<le> v < 1\<close> and five fractional digits, rounded half up. The range
  check of \<open>parse_user_rate\<close> reads the value before it is rounded: \<open>0.999995\<close> is
  below 1, passes, and is then rounded half up to \<open>1.00000\<close>. So the result is not
  below 1. The claim's own example, \<open>0.123455\<close>, gives \<open>0.12346\<close>.
\<close>

theorem parse_user_rate_rounds_to_one:
  "parse_user_rate ''0.999995'' = Inr (Fin False 100000 (- 5)) \<and>
   dec_val (Fin False 100000 (- 5)) = 1 \<and>
   format_5f (Fin False 100000 (- 5)) = ''1.00000'' \<and>
   parse_user_rate ''0.123455'' = Inr (Fin False 12346 (- 5))"
proof -
  have "parse_user_rate ''0.999995'' = Inr (Fin False 100000 (- 5))" by (simp add: rate_eval)
  moreover have "dec_val (Fin False 100000 (- 5)) = 1" by (simp add: pow10_def)
  moreover have "format_5f (Fin False 100000 (- 5)) = ''1.00000''" by (simp add: rate_eval)
  moreover have "parse_user_rate ''0.123455'' = Inr (Fin False 12346 (- 5))" by (simp add: rate_eval)
  ultimately show ?thesis by blast
qed

subsection \<open>The rejections and their order\<close>

text \<open>
  C6, as the code has it. The checks run in the order: leading minus, pattern, number
  of digits, range. \<open>0.1\<close> has too few digits, \<open>-0.12345\<close> is negative and \<open>abc\<close> has
  a bad format. \<open>1.00000\<close> does not start with \<open>0.\<close>, so the pattern rejects it as a
  bad format before the range check is reached.
\<close>

theorem parse_user_rate_rejections:
  "parse_user_rate ''0.1'' = Inl (RateParseError TooFewDigits) \<and>
   parse_user_rate ''-0.12345'' = Inl (RateParseError NegativeRate) \<and>
   parse_user_rate ''1.00000'' = Inl (RateParseError BadFormat) \<and>
   parse_user_rate ''abc'' = Inl (RateParseError BadFormat) \<and>
   (startswith ''-'' (strip raw) \<longrightarrow> parse_user_rate raw = Inl (RateParseError NegativeRate)) \<and>
   (\<not> startswith ''-'' (strip raw) \<and> RATE_INPUT_RE_match (strip raw) = None \<longrightarrow>
      parse_user_rate raw = Inl (RateParseError BadFormat)) \<and>
   (\<not> startswith ''-'' (strip raw) \<and> RATE_INPUT_RE_match (strip raw) = Some frc \<and>
    length frc < 5 \<longrightarrow>
      parse_user_rate raw = Inl (RateParseError TooFewDigits))"
proof -
  have "parse_user_rate ''0.1'' = Inl (RateParseError TooFewDigits)" by (simp add: rate_eval)
  moreover have "parse_user_rate ''-0.12345'' = Inl (RateParseError NegativeRate)" by (simp add: rate_eval)
  moreover have "parse_user_rate ''1.00000'' = Inl (RateParseError BadFormat)" by (simp add: rate_eval)
  moreover have "parse_user_rate ''abc'' = Inl (RateParseError BadFormat)" by (simp add: rate_eval)
  moreover have "startswith ''-'' (strip raw) \<longrightarrow>
      parse_user_rate raw = Inl (RateParseError NegativeRate)"
    by (simp add: parse_user_rate_def Let_def)
  moreover have "\<not> startswith ''-'' (strip raw) \<and> RATE_INPUT_RE_match (strip raw) = None \<longrightarrow>
      parse_user_rate raw = Inl (RateParseError BadFormat)"
    by (simp add: parse_user_rate_def Let_def)
  moreover have "\<not> startswith ''-'' (strip raw) \<and> RATE_INPUT_RE_match (strip raw) = Some frc \<and>
      length frc < 5 \<longrightarrow> parse_user_rate raw = Inl (RateParseError TooFewDigits)"
    by (simp add: parse_user_rate_def Let_def)
  ultimately show ?thesis by blast
qed

theorem parse_user_rate_rejections_witness:
  "startswith ''-'' (strip ''-0.12345'') \<and>
   parse_user_rate ''-0.12345'' = Inl (RateParseError NegativeRate) \<and>
   \<not> startswith ''-'' (strip ''abc'') \<and> RATE_INPUT_RE_match (strip ''abc'') = None \<and>
   parse_user_rate ''abc'' = Inl (RateParseError BadFormat) \<and>
   \<not> startswith ''-'' (strip ''0.1'') \<and> RATE_INPUT_RE_match (strip ''0.1'') = Some ''1'' \<and>
   length ''1'' < (5::nat) \<and>
   parse_user_rate ''0.1'' = Inl (RateParseError TooFewDigits)"
proof -
  have a: "startswith ''-'' (strip ''-0.12345'')" by (simp add: rate_eval)
  have b: "\<not> startswith ''-'' (strip ''abc'') \<and> RATE_INPUT_RE_match (strip ''abc'') = None"
    by (simp add: rate_eval)
  have c: "\<not> startswith ''-'' (strip ''0.1'') \<and> RATE_INPUT_RE_match (strip ''0.1'') = Some ''1'' \<and>
      length ''1'' < (5::nat)"
    by (simp add: rate_eval)
  from a b c parse_user_rate_rejections [of "''-0.12345''" "''1''"]
    parse_user_rate_rejections [of "''abc''" "''1''"]
    parse_user_rate_rejections [of "''0.1''" "''1''"]
  show ?thesis by blast
qed

text \<open>The claim as it was stated fails: \<open>1.00000\<close> is not reported as out of range.\<close>

theorem parse_user_rate_one_not_out_of_range:
  "parse_user_rate ''1.00000'' \<noteq> Inl (RateParseError OutOfRange)"
proof -
  have "parse_user_rate ''1.00000'' = Inl (RateParseError BadFormat)" by (simp add: rate_eval)
  then show ?thesis by simp
qed

subsection \<open>The range check cannot fail\<close>

text \<open>
  C10. A string that the pattern \<open>^0\.(\d+)$\<close> matches converts to a decimal \<open>d\<close> with
  \<open>0 \<le> d < 1\<close>, so neither \<open>d < 0\<close> nor \<open>d >= 1\<close> holds after the match: the two
  checks that follow the conversion never raise. No input at all is reported as
  out of range, and \<open>1.00000\<close> is rejected by the pattern, as a bad format.
\<close>

theorem out_of_range_unreachable:
  "(RATE_INPUT_RE_match s = Some frc \<longrightarrow>
      (\<exists>d. Decimal_of_str s = Inr d \<and> 0 \<le> dec_val d \<and> dec_val d < 1 \<and>
           dec_lt d (Decimal_of_int 0) = Inr False \<and>
           dec_ge d (Decimal_of_int 1) = Inr False)) \<and>
   parse_user_rate raw \<noteq> Inl (RateParseError OutOfRange) \<and>
   RATE_INPUT_RE_match (strip ''1.00000'') = None \<and>
   parse_user_rate ''1.00000'' = Inl (RateParseError BadFormat)"
proof -
  have "RATE_INPUT_RE_match (strip ''1.00000'') = None" by (simp add: rate_eval)
  moreover have "parse_user_rate ''1.00000'' = Inl (RateParseError BadFormat)" by (simp add: rate_eval)
  ultimately show ?thesis
    using matched_in_range [of s frc] parse_user_rate_not_OutOfRange [of raw] by blast
qed

theorem out_of_range_unreachable_witness:
  "RATE_INPUT_RE_match ''0.99999'' = Some ''99999'' \<and>
   (\<exists>d. Decimal_of_str ''0.99999'' = Inr d \<and> 0 \<le> dec_val d \<and> dec_val d < 1 \<and>
        dec_lt d (Decimal_of_int 0) = Inr False \<and>
        dec_ge d (Decimal_of_int 1) = Inr False)"
proof -
  have h: "RATE_INPUT_RE_match ''0.99999'' = Some ''99999''" by (simp add: rate_eval)
  from h out_of_range_unreachable [of "''0.99999''" "''99999''" "[]"] show ?thesis by blast
qed

section \<open>Offer rates\<close>

text \<open>Where \<open>parse_offer_rate\<close> does return \<open>None\<close>.\<close>

lemma parse_offer_rate_missing:
  "get obj ''rate'' = JNull \<Longrightarrow> get obj ''blendedRate'' = JNull \<Longrightarrow>
   parse_offer_rate obj = Inr None"
  by (simp add: parse_offer_rate_def)

lemma parse_offer_rate_unparsable:
  "get obj ''rate'' = v \<Longrightarrow> v \<noteq> JNull \<Longrightarrow> Decimal_of_str (str v) = Inl InvalidOperation \<Longrightarrow>
   parse_offer_rate obj = Inr None"
  by (simp add: parse_offer_rate_def)

lemma parse_offer_rate_out_of_range:
  "get obj ''rate'' = v \<Longrightarrow> v \<noteq> JNull \<Longrightarrow> Decimal_of_str (str v) = Inr d \<Longrightarrow> \<not> is_nan d \<Longrightarrow>
   num_less d (Decimal_of_int 0) \<or> \<not> num_less d (Decimal_of_int 1) \<Longrightarrow>
   parse_offer_rate obj = Inr None"
  by (auto simp: parse_offer_rate_def dec_lt_def dec_ge_def dec_le_def Decimal_of_int_def)

text \<open>
  C9. The claim: \<open>parse_offer_rate\<close> returns \<open>None\<close>, never an error, for a record
  whose rate cannot be parsed as a number. \<open>Decimal\<close> accepts the text \<open>NaN\<close> (and
  \<open>nan\<close>, which is \<open>str\<close> of a float NaN), so the \<open>try\<close> around the conversion lets
  it through; the comparison \<open>d < 0\<close> that follows is outside the \<open>try\<close> and raises
  \<open>InvalidOperation\<close> for a NaN. The exception leaves \<open>parse_offer_rate\<close> and
  \<open>fetch_offers\<close>, so one such record loses the whole feed.
\<close>

theorem parse_offer_rate_nan_raises:
  "parse_offer_rate [(''id'', JStr ''b''), (''rate'', JStr ''NaN'')] = Inl InvalidOperation \<and>
   parse_offer_rate [(''id'', JStr ''b''), (''blendedRate'', JFloat ''nan'')] = Inl InvalidOperation \<and>
   fetch_offers (Response 200 (Some (JDict
      [(''results'', JList
          [JDict [(''id'', JStr ''a''), (''rate'', JStr ''0.15'')],
           JDict [(''id'', JStr ''b''), (''rate'', JStr ''NaN'')]])]))) = Inl InvalidOperation"
proof -
  have "parse_offer_rate [(''id'', JStr ''b''), (''rate'', JStr ''NaN'')] = Inl InvalidOperation"
    by (simp add: json_eval str_eval dec_eval Let_def)
  moreover have "parse_offer_rate [(''id'', JStr ''b''), (''blendedRate'', JFloat ''nan'')] =
      Inl InvalidOperation"
    by (simp add: json_eval str_eval dec_eval Let_def)
  moreover have "fetch_offers (Response 200 (Some (JDict
      [(''results'', JList
          [JDict [(''id'', JStr ''a''), (''rate'', JStr ''0.15'')],
           JDict [(''id'', JStr ''b''), (''rate'', JStr ''NaN'')]])]))) = Inl InvalidOperation"
    by (simp add: fetch_eval)
  ultimately show ?thesis by (intro conjI)
qed

section \<open>Ranking\<close>

text \<open>
  C7. \<open>fetch_offers\<close> ranks the normalized offers with the list's stable sort on
  \<open>rate_dec\<close>: the result is ascending by rate, and for every rate the offers of that
  rate are in their order of arrival; no offer is lost or added. A feed with the rates
  0.15, 0.10, 0.10 and 0.20 (offers \<open>a\<close>, \<open>b\<close>, \<open>c\<close>, \<open>d\<close>) is ranked \<open>b\<close>, \<open>c\<close>, \<open>a\<close>, \<open>d\<close>.
\<close>

theorem rank_ascending_stable:
  "sorted (map (\<lambda>x. dec_val (rate_dec x)) (rank offers)) \<and>
   (\<forall>k. filter (\<lambda>x. dec_val (rate_dec x) = k) (rank offers) =
        filter (\<lambda>x. dec_val (rate_dec x) = k) offers) \<and>
   set (rank offers) = set offers \<and> length (rank offers) = length offers \<and>
   map_sum id (map (\<lambda>x. (oid x, rate_str x)))
     (fetch_offers (Response 200 (Some (JDict
        [(''results'', JList
            [JDict [(''id'', JStr ''a''), (''rate'', JStr ''0.15'')],
             JDict [(''id'', JStr ''b''), (''rate'', JStr ''0.10'')]]),
         (''compareResults'', JList
            [JDict [(''id'', JStr ''c''), (''blendedRate'', JFloat ''0.1'')],
             JDict [(''id'', JStr ''d''), (''rate'', JStr ''0.20'')]])])))) =
   Inr [(''b'', ''0.10000''), (''c'', ''0.10000''), (''a'', ''0.15000''), (''d'', ''0.20000'')]"
proof -
  have "sorted (map (\<lambda>x. dec_val (rate_dec x)) (rank offers))"
    by (simp add: rank_def)
  moreover have "\<forall>k. filter (\<lambda>x. dec_val (rate_dec x) = k) (rank offers) =
        filter (\<lambda>x. dec_val (rate_dec x) = k) offers"
    by (simp add: rank_def sort_key_stable)
  moreover have "set (rank offers) = set offers \<and> length (rank offers) = length offers"
    by (simp add: rank_def)
  moreover have "map_sum id (map (\<lambda>x. (oid x, rate_str x)))
     (fetch_offers (Response 200 (Some (JDict
        [(''results'', JList
            [JDict [(''id'', JStr ''a''), (''rate'', JStr ''0.15'')],
             JDict [(''id'', JStr ''b''), (''rate'', JStr ''0.10'')]]),
         (''compareResults'', JList
            [JDict [(''id'', JStr ''c''), (''blendedRate'', JFloat ''0.1'')],
             JDict [(''id'', JStr ''d''), (''rate'', JStr ''0.20'')]])])))) =
   Inr [(''b'', ''0.10000''), (''c'', ''0.10000''), (''a'', ''0.15000''), (''d'', ''0.20000'')]"
    by (simp add: fetch_eval)
  ultimately show ?thesis by (intro conjI) simp_all
qed

section \<open>Savings\<close>

subsection \<open>No rounding to the precision for rates\<close>

lemma ndigits_le: "0 < n \<Longrightarrow> c < 10 ^ n \<Longrightarrow> ndigits c \<le> n"
proof (induction n arbitrary: c)
  case 0
  then show ?case by simp
next
  case (Suc n)
  show ?case
  proof (cases "c < 10")
    case True
    then show ?thesis by (subst ndigits.simps) simp
  next
    case False
    with Suc.prems have "0 < n" by (cases n) auto
    moreover from Suc.prems have "c div 10 < 10 ^ n"
      by (simp add: less_mult_imp_div_less mult.commute)
    ultimately have "ndigits (c div 10) \<le> n" by (rule Suc.IH)
    with False show ?thesis by (subst ndigits.simps) simp
  qed
qed

lemma ndigits_prec: "c < 10 ^ 28 \<Longrightarrow> ndigits c \<le> prec"
  unfolding prec_def by (rule ndigits_le) simp_all

lemma ctx_round_small: "c < 10 ^ 28 \<Longrightarrow> ctx_round (Fin s c e) = Fin s c e"
  by (simp add: ctx_round_def ndigits_prec del: ndigits.simps)

lemma nat_int_diff: "nat (int a - int b) = a - b"
  by arith

lemma dec_sub_rates:
  assumes "u \<le> 100000" "b \<le> 100000"
  shows "dec_sub (Fin False u (- 5)) (Fin False b (- 5)) =
         Inr (Fin (u < b) (if u < b then b - u else u - b) (- 5))"
proof -
  let ?c = "if u < b then b - u else u - b"
  have "?c \<le> 100000" using assms by auto
  then have small: "?c < 10 ^ 28" by (rule le_less_trans) simp
  have "fin_sub (Fin False u (- 5)) (Fin False b (- 5)) = Inr (ctx_round (Fin (u < b) ?c (- 5)))"
    by (auto simp: signed_def Let_def nat_int_diff)
  then show ?thesis using ctx_round_small [OF small] by (simp add: dec_sub_def)
qed




subsection \<open>Rounding to cents\<close>







subsection \<open>The savings for rates\<close>








section \<open>The command \<open>setrate\<close>\<close>

lemma setdefault_present: "i k = Some v \<Longrightarrow> setdefault i k d = i"
  by (simp add: setdefault_def)

lemma setdefault_absent: "i k = None \<Longrightarrow> setdefault i k d = i(k \<mapsto> d)"
  by (simp add: setdefault_def)

lemma example_page_offers:
  "fetch_offers example_page =
   Inr [make_offer [(''id'', JStr ''A''), (''supplier'', JStr ''Acme''),
                    (''rate'', JStr ''0.10000'')] (Fin False 10000 (- 5))]"
  by (simp add: example_page_def response_ok_def offers_of_json_def rank_def json_eval str_eval
      dec_eval Let_def)

text \<open>
  C1. The claim: a successful \<open>setrate\<close> leaves both \<open>last_notified_offer_id\<close> and
  \<open>last_notified_rate\<close> absent, also for a user who had been notified. The code
  resets them with \<open>setdefault\<close>, which writes \<open>None\<close> only where the key is missing:
  for a user notified of offer \<open>A\<close> at 0.10000 the two fields are still there after
  \<open>setrate\<close>, and the next daily pass with the same best offer sends nothing.
\<close>

theorem setrate_keeps_notified_state:
  "map_sum id
     (\<lambda>(f', r). (stored f' 11 ''last_notified_offer_id'', stored f' 11 ''last_notified_rate'', r,
                  fst (snd (daily_check quiet_discord example_page f'))))
     (setrate example_ctx ''0.15000'' (Some [(11, notified_info)])) =
   Inr (Some (SStr ''A''), Some (SStr ''0.10000''), SavedReply ''0.15000'', [])"
  by (simp add: setrate_def notified_info_def example_ctx_def store_eval rate_eval
      digit_char_def daily_check_def example_page_offers)
     (simp add: notify_eval make_offer_def json_eval savings_eval sget_def str_eval)

section \<open>The daily check\<close>

lemma bind_eq_Inr: "bind m f = Inr y \<longleftrightarrow> (\<exists>x. m = Inr x \<and> f x = Inr y)"
  by (cases m) simp_all

lemma cheaper_than_Inr:
  "cheaper_than xs r = Inr ys \<Longrightarrow> ys = filter (\<lambda>x. num_less (rate_dec x) r) xs"
proof (induction xs arbitrary: ys)
  case Nil
  then show ?case by simp
next
  case (Cons x xs)
  from Cons.prems obtain b rest where b: "dec_lt (rate_dec x) r = Inr b"
    and rest: "cheaper_than xs r = Inr rest" and ys: "ys = (if b then x # rest else rest)"
    by (auto simp: bind_eq_Inr)
  from b have "b = num_less (rate_dec x) r" by (auto simp: dec_lt_def split: if_splits)
  with Cons.IH [OF rest] ys show ?case by simp
qed

lemma first_cheaper_is_cheapest:
  assumes "sorted (map key offers)" "filter P offers = best # others"
  shows "\<forall>x \<in> set others. key best \<le> key x"
proof -
  from assms(1) have "sorted (map key (filter P offers))" by (rule sorted_filter)
  with assms(2) show ?thesis by simp
qed

text \<open>
  The body of the loop, for a user for whom it runs to its end (the user has a rate
  that \<open>Decimal\<close> reads, and nothing raises): the offers strictly below the user's rate
  are taken in ranked order. If there is none, nothing is sent and the user's
  dictionary is unchanged. If the first of them has the stored id and the stored
  rate string, nothing is sent and the dictionary is unchanged. Otherwise the
  text for that offer is built and \<open>send_notification\<close> is called with it, and the
  dictionary gets that offer's id and rate string; so the same id at another rate,
  or another id at the same rate, is notified again.
\<close>

lemma dedup_transition:
  assumes "daily_user env offers uid i = Inr (i', out)"
    and "i ''rate'' = Some r" and "Decimal_of_sval r = Inr user_rate"
  shows "cheaper_than offers user_rate =
           Inr (filter (\<lambda>x. num_less (rate_dec x) user_rate) offers) \<and>
         (case filter (\<lambda>x. num_less (rate_dec x) user_rate) offers of
            [] \<Rightarrow> i' = i \<and> out = []
          | best # others \<Rightarrow>
              if sget i ''last_notified_offer_id'' = SStr (oid best) \<and>
                 sget i ''last_notified_rate'' = SStr (rate_str best)
              then i' = i \<and> out = []
              else i' = i(''last_notified_offer_id'' \<mapsto> SStr (oid best),
                          ''last_notified_rate'' \<mapsto> SStr (rate_str best)) \<and>
                   (\<exists>savings.
                      build_text user_rate best (best # others) =
                        Inr (Notice user_rate best savings (tl (take 3 (best # others)))) \<and>
                      send_notification env uid i
                        (Notice user_rate best savings (tl (take 3 (best # others)))) = Inr out))"
proof -
  let ?better = "filter (\<lambda>x. num_less (rate_dec x) user_rate) offers"
  from assms have body:
    "bind (cheaper_than offers user_rate) (\<lambda>better.
       case better of
         [] \<Rightarrow> Inr (i, [])
       | best # _ \<Rightarrow>
           if sget i ''last_notified_offer_id'' = SStr (oid best) \<and>
              sget i ''last_notified_rate'' = SStr (rate_str best)
           then Inr (i, [])
           else bind (build_text user_rate best better) (\<lambda>text.
                  bind (send_notification env uid i text) (\<lambda>out.
                    Inr (i(''last_notified_offer_id'' \<mapsto> SStr (oid best),
                           ''last_notified_rate'' \<mapsto> SStr (rate_str best)), out)))) = Inr (i', out)"
    by (simp add: daily_user_def)
  then obtain better where ch: "cheaper_than offers user_rate = Inr better"
    and rest: "(case better of
         [] \<Rightarrow> Inr (i, [])
       | best # _ \<Rightarrow>
           if sget i ''last_notified_offer_id'' = SStr (oid best) \<and>
              sget i ''last_notified_rate'' = SStr (rate_str best)
           then Inr (i, [])
           else bind (build_text user_rate best better) (\<lambda>text.
                  bind (send_notification env uid i text) (\<lambda>out.
                    Inr (i(''last_notified_offer_id'' \<mapsto> SStr (oid best),
                           ''last_notified_rate'' \<mapsto> SStr (rate_str best)), out)))) = Inr (i', out)"
    unfolding bind_eq_Inr by blast
  from cheaper_than_Inr [OF ch] have better: "better = ?better" .
  show ?thesis
  proof (cases ?better)
    case Nil
    with rest better ch show ?thesis by simp
  next
    case (Cons best others)
    show ?thesis
    proof (cases "sget i ''last_notified_offer_id'' = SStr (oid best) \<and>
                  sget i ''last_notified_rate'' = SStr (rate_str best)")
      case True
      with rest better ch Cons show ?thesis by simp
    next
      case False
      with rest better Cons obtain msg where
        bt: "build_text user_rate best (best # others) = Inr msg"
        and sn: "send_notification env uid i msg = Inr out"
        and i': "i' = i(''last_notified_offer_id'' \<mapsto> SStr (oid best),
                        ''last_notified_rate'' \<mapsto> SStr (rate_str best))"
        by (auto simp: bind_eq_Inr)
      from bt obtain savings where
        "msg = Notice user_rate best savings (tl (take 3 (best # others)))"
        by (auto simp: build_text_def format_offer_block_def bind_eq_Inr split: if_splits)
      with bt sn i' False better ch Cons show ?thesis by auto
    qed
  qed
qed

lemma dedup_transition_example:
  "daily_user quiet_discord [repriced_offer] 11 notified_info =
     Inr (notified_info(''last_notified_offer_id'' \<mapsto> SStr ''A'',
                        ''last_notified_rate'' \<mapsto> SStr ''0.09000''),
          [DirectMessage 11
             (Notice (Fin False 15000 (- 5)) repriced_offer (Fin False 4500 (- 2)) [])]) \<and>
   notified_info ''rate'' = Some (SStr ''0.15000'') \<and>
   Decimal_of_sval (SStr ''0.15000'') = Inr (Fin False 15000 (- 5)) \<and>
   cheaper_than [repriced_offer] (Fin False 15000 (- 5)) =
     Inr (filter (\<lambda>x. num_less (rate_dec x) (Fin False 15000 (- 5))) [repriced_offer])"
proof -
  have h1: "daily_user quiet_discord [repriced_offer] 11 notified_info =
     Inr (notified_info(''last_notified_offer_id'' \<mapsto> SStr ''A'',
                        ''last_notified_rate'' \<mapsto> SStr ''0.09000''),
          [DirectMessage 11
             (Notice (Fin False 15000 (- 5)) repriced_offer (Fin False 4500 (- 2)) [])])"
    by (simp add: notify_eval quiet_discord_def repriced_offer_def notified_info_def
        make_offer_def json_eval savings_eval sget_def str_eval)
  have h2: "notified_info ''rate'' = Some (SStr ''0.15000'')"
    by (simp add: notified_info_def)
  have h3: "Decimal_of_sval (SStr ''0.15000'') = Inr (Fin False 15000 (- 5))"
    by (simp add: str_eval dec_eval Let_def)
  from dedup_transition [OF h1 h2 h3]
  have "cheaper_than [repriced_offer] (Fin False 15000 (- 5)) =
     Inr (filter (\<lambda>x. num_less (rate_dec x) (Fin False 15000 (- 5))) [repriced_offer])"
    by (rule conjunct1)
  with h1 h2 h3 show ?thesis by (intro conjI)
qed

subsection \<open>The transition through a whole pass\<close>

lemma repriced_page_offers:
  "fetch_offers repriced_page =
   Inr [make_offer [(''id'', JStr ''A''), (''supplier'', JStr ''Acme''),
                    (''rate'', JStr ''0.09000'')] (Fin False 9000 (- 5)),
        make_offer [(''id'', JStr ''B''), (''supplier'', JStr ''Best''),
                    (''rate'', JStr ''0.12000'')] (Fin False 12000 (- 5))]"
  by (simp add: repriced_page_def response_ok_def offers_of_json_def rank_def json_eval str_eval
      dec_eval Let_def make_offer_def)

lemma repriced_user_raises:
  "daily_user (rejecting_discord (DiscordError NotFound))
     [make_offer [(''id'', JStr ''A''), (''supplier'', JStr ''Acme''),
                  (''rate'', JStr ''0.09000'')] (Fin False 9000 (- 5)),
      make_offer [(''id'', JStr ''B''), (''supplier'', JStr ''Best''),
                  (''rate'', JStr ''0.12000'')] (Fin False 12000 (- 5))] 11 notified_info =
   Inl (DiscordError NotFound)"
  by (simp add: notify_eval rejecting_discord_def notified_info_def make_offer_def json_eval
      savings_eval sget_def str_eval)

lemma repriced_user_advances:
  "\<exists>n. daily_user quiet_discord
     [make_offer [(''id'', JStr ''A''), (''supplier'', JStr ''Acme''),
                  (''rate'', JStr ''0.09000'')] (Fin False 9000 (- 5)),
      make_offer [(''id'', JStr ''B''), (''supplier'', JStr ''Best''),
                  (''rate'', JStr ''0.12000'')] (Fin False 12000 (- 5))] 11 notified_info =
   Inr (notified_info(''last_notified_offer_id'' \<mapsto> SStr ''A'',
                      ''last_notified_rate'' \<mapsto> SStr ''0.09000''), [DirectMessage 11 n])"
  by (simp add: notify_eval quiet_discord_def notified_info_def make_offer_def json_eval
      savings_eval sget_def str_eval)

text \<open>
  C2. The claim: when the best ranked offer below the user's rate differs from the
  stored pair, a notification for it fires and the stored state becomes that offer's
  id and rate string. User 11 pays 0.15000 and has been notified of \<open>A\<close> at 0.10000;
  the feed is ranked \<open>A\<close> at 0.09000, then \<open>B\<close> at 0.12000, so the best offer is the
  same id at another rate. When the channel refuses the message and the direct
  message raises \<open>NotFound\<close>, the exception leaves \<open>send_notification\<close> before the
  state is updated and leaves the pass before \<open>save_data\<close>: the stored pair stays
  \<open>A\<close>, 0.10000. Where the delivery returns, the same pass stores \<open>A\<close>, 0.09000
  and sends one message, as the claim says.
\<close>

theorem dedup_state_not_advanced:
  "map_sum id (map (\<lambda>x. (oid x, rate_str x))) (fetch_offers repriced_page) =
     Inr [(''A'', ''0.09000''), (''B'', ''0.12000'')] \<and>
   stored (Some [(11, notified_info)]) 11 ''rate'' = Some (SStr ''0.15000'') \<and>
   stored (Some [(11, notified_info)]) 11 ''last_notified_rate'' = Some (SStr ''0.10000'') \<and>
   daily_check (rejecting_discord (DiscordError NotFound)) repriced_page
       (Some [(11, notified_info)]) =
     (Some [(11, notified_info)], [], Some (DiscordError NotFound)) \<and>
   (\<lambda>(f', out, e). (stored f' 11 ''last_notified_offer_id'',
                     stored f' 11 ''last_notified_rate'', length out, e))
     (daily_check quiet_discord repriced_page (Some [(11, notified_info)])) =
     (Some (SStr ''A''), Some (SStr ''0.09000''), 1, None)"
proof -
  have 1: "map_sum id (map (\<lambda>x. (oid x, rate_str x))) (fetch_offers repriced_page) =
     Inr [(''A'', ''0.09000''), (''B'', ''0.12000'')]"
    by (simp add: repriced_page_offers) (simp add: make_offer_def json_eval str_eval dec_eval Let_def)
  have 2: "stored (Some [(11, notified_info)]) 11 ''rate'' = Some (SStr ''0.15000'')"
    by (simp add: store_eval notified_info_def)
  have 3: "stored (Some [(11, notified_info)]) 11 ''last_notified_rate'' = Some (SStr ''0.10000'')"
    by (simp add: store_eval notified_info_def)
  have 4: "daily_check (rejecting_discord (DiscordError NotFound)) repriced_page
       (Some [(11, notified_info)]) =
     (Some [(11, notified_info)], [], Some (DiscordError NotFound))"
    by (simp add: daily_check_def load_data_def repriced_page_offers repriced_user_raises)
  from repriced_user_advances obtain n where
    "daily_user quiet_discord
     [make_offer [(''id'', JStr ''A''), (''supplier'', JStr ''Acme''),
                  (''rate'', JStr ''0.09000'')] (Fin False 9000 (- 5)),
      make_offer [(''id'', JStr ''B''), (''supplier'', JStr ''Best''),
                  (''rate'', JStr ''0.12000'')] (Fin False 12000 (- 5))] 11 notified_info =
     Inr (notified_info(''last_notified_offer_id'' \<mapsto> SStr ''A'',
                        ''last_notified_rate'' \<mapsto> SStr ''0.09000''), [DirectMessage 11 n])" ..
  then have 5: "(\<lambda>(f', out, e). (stored f' 11 ''last_notified_offer_id'',
                     stored f' 11 ''last_notified_rate'', length out, e))
     (daily_check quiet_discord repriced_page (Some [(11, notified_info)])) =
     (Some (SStr ''A''), Some (SStr ''0.09000''), 1, None)"
    by (simp add: daily_check_def load_data_def repriced_page_offers)
       (simp add: store_eval)
  from 1 2 3 4 5 show ?thesis by (intro conjI)
qed

text \<open>
  C3. When \<open>fetch_offers\<close> raises, or returns no offer, the pass ends there:
  nothing is sent, nothing is written, and the file is what it was.
\<close>

theorem fetch_failure_keeps_store:
  "(\<exists>e. fetch_offers page = Inl e) \<or> fetch_offers page = Inr [] \<Longrightarrow>
   daily_check env page f = (f, [], None)"
  by (auto simp: daily_check_def Let_def)

theorem fetch_failure_keeps_store_witness:
  "fetch_offers BrowserRaises = Inl PlaywrightError \<and>
   daily_check quiet_discord BrowserRaises (Some example_store) = (Some example_store, [], None) \<and>
   fetch_offers (Response 200 (Some (JDict []))) = Inr [] \<and>
   daily_check quiet_discord (Response 200 (Some (JDict []))) (Some example_store) =
     (Some example_store, [], None)"
proof -
  have a: "fetch_offers BrowserRaises = Inl PlaywrightError" by simp
  have b: "fetch_offers (Response 200 (Some (JDict []))) = Inr []"
    by (simp add: response_ok_def offers_of_json_def rank_def json_eval)
  from a have a': "(\<exists>e. fetch_offers BrowserRaises = Inl e) \<or> fetch_offers BrowserRaises = Inr []"
    by blast
  from b have b': "(\<exists>e. fetch_offers (Response 200 (Some (JDict []))) = Inl e) \<or>
      fetch_offers (Response 200 (Some (JDict []))) = Inr []"
    by blast
  from a b fetch_failure_keeps_store [OF a', of quiet_discord "Some example_store"]
    fetch_failure_keeps_store [OF b', of quiet_discord "Some example_store"]
  show ?thesis by (intro conjI)
qed

subsection \<open>A delivery that raises\<close>

lemma rejected_user_raises:
  "daily_user (rejecting_discord (DiscordError HTTPException))
      [make_offer [(''id'', JStr ''A''), (''supplier'', JStr ''Acme''),
                   (''rate'', JStr ''0.10000'')] (Fin False 10000 (- 5))] 11
      [''rate'' \<mapsto> SStr ''0.15000'', ''notify_channel_id'' \<mapsto> SInt 7] =
   Inl (DiscordError HTTPException)"
  by (simp add: notify_eval rejecting_discord_def make_offer_def json_eval savings_eval sget_def
      str_eval)

lemma forbidden_user_advances:
  "daily_user (rejecting_discord (DiscordError Forbidden))
      [make_offer [(''id'', JStr ''A''), (''supplier'', JStr ''Acme''),
                   (''rate'', JStr ''0.10000'')] (Fin False 10000 (- 5))] 11
      [''rate'' \<mapsto> SStr ''0.15000'', ''notify_channel_id'' \<mapsto> SInt 7] =
   Inr ([''rate'' \<mapsto> SStr ''0.15000'', ''notify_channel_id'' \<mapsto> SInt 7,
         ''last_notified_offer_id'' \<mapsto> SStr ''A'',
         ''last_notified_rate'' \<mapsto> SStr ''0.10000''], [])"
  by (simp add: notify_eval rejecting_discord_def make_offer_def json_eval savings_eval sget_def
      str_eval)

lemma other_user_notified:
  "\<exists>n. daily_user (rejecting_discord e)
      [make_offer [(''id'', JStr ''A''), (''supplier'', JStr ''Acme''),
                   (''rate'', JStr ''0.10000'')] (Fin False 10000 (- 5))] 12
      [''rate'' \<mapsto> SStr ''0.15000''] =
   Inr ([''rate'' \<mapsto> SStr ''0.15000'', ''last_notified_offer_id'' \<mapsto> SStr ''A'',
         ''last_notified_rate'' \<mapsto> SStr ''0.10000''], [DirectMessage 12 n])"
  by (simp add: notify_eval rejecting_discord_def make_offer_def json_eval savings_eval sget_def
      str_eval)

lemma forbidden_pass:
  "(\<lambda>(f', out, e). (stored f' 11 ''last_notified_offer_id'',
                     stored f' 12 ''last_notified_offer_id'', length out, e))
     (daily_check (rejecting_discord (DiscordError Forbidden)) example_page (Some example_store)) =
   (Some (SStr ''A''), Some (SStr ''A''), 1, None)"
proof -
  from other_user_notified [of "DiscordError Forbidden"] obtain n where
    "daily_user (rejecting_discord (DiscordError Forbidden))
      [make_offer [(''id'', JStr ''A''), (''supplier'', JStr ''Acme''),
                   (''rate'', JStr ''0.10000'')] (Fin False 10000 (- 5))] 12
      [''rate'' \<mapsto> SStr ''0.15000''] =
     Inr ([''rate'' \<mapsto> SStr ''0.15000'', ''last_notified_offer_id'' \<mapsto> SStr ''A'',
           ''last_notified_rate'' \<mapsto> SStr ''0.10000''], [DirectMessage 12 n])" ..
  then show ?thesis
    by (simp add: daily_check_def load_data_def example_page_offers)
       (simp add: example_store_def forbidden_user_advances store_eval digit_char_def)
qed

text \<open>
  C4. The claim: whatever the delivery error, \<open>send_notification\<close> swallows it, the
  pass goes on, the user's state advances and the store is saved. The send to the
  channel is guarded by \<open>except discord.Forbidden\<close> and \<open>except discord.HTTPException\<close>;
  the direct message that follows is guarded by \<open>except discord.Forbidden\<close> only. When
  the channel refuses user 11 and the direct message raises another \<open>HTTPException\<close>,
  the exception leaves \<open>send_notification\<close> and \<open>daily_check\<close>: user 11 is not
  advanced, user 12 is not processed, nothing is saved. With \<open>Forbidden\<close> from the
  direct message the pass does what the claim says.
\<close>

theorem delivery_error_aborts_pass:
  "daily_check (rejecting_discord (DiscordError HTTPException)) example_page (Some example_store) =
     (Some example_store, [], Some (DiscordError HTTPException)) \<and>
   (\<lambda>(f', out, e). (stored f' 11 ''last_notified_offer_id'',
                     stored f' 12 ''last_notified_offer_id'', length out, e))
     (daily_check (rejecting_discord (DiscordError Forbidden)) example_page (Some example_store)) =
     (Some (SStr ''A''), Some (SStr ''A''), 1, None)"
proof -
  have "daily_check (rejecting_discord (DiscordError HTTPException)) example_page
      (Some example_store) = (Some example_store, [], Some (DiscordError HTTPException))"
    by (simp add: daily_check_def load_data_def example_page_offers)
       (simp add: example_store_def rejected_user_raises)
  with forbidden_pass show ?thesis by (intro conjI)
qed

end
